theory Spec2Isabelle
  imports
    Complex_Main
    "HOL-Library.Sublist"
    "HOL-Library.Char_ord"
    "HOL-Library.List_Lexorder"
begin

section \<open>The tabular store\<close>

text \<open>
  \<^verbatim>\<open>HospitalDataManager\<close> keeps four CSV files and reads each one whole with
  \<^verbatim>\<open>pd.read_csv\<close> at the start of every operation. The model keeps what
  \<^verbatim>\<open>read_csv\<close> delivers: one row per record, one cell per column. A cell that is blank in
  the file is NaN in the frame and \<open>None\<close> here. The id columns are written by the program from
  \<^verbatim>\<open>_generate_id\<close> and from an integer argument, and hold integers; text columns hold
  text; \<^verbatim>\<open>age\<close> is an integer; \<^verbatim>\<open>amount\<close> is a double: a finite value, given
  by the rational it denotes, or an infinity (\<^verbatim>\<open>float("inf")\<close> is accepted by
  \<^verbatim>\<open>generate_bill\<close>, written as \<^verbatim>\<open>inf\<close> and read back), or NaN, which
  \<^verbatim>\<open>to_csv\<close> writes as a blank cell.

  The records are polymorphic in their cells: \<open>'t\<close> is the type of a text cell and \<open>'n\<close> that of
  the numeric cell. A frame as read has \<open>'t = string option\<close> and \<open>'n = int option\<close> (or
  \<open>number option\<close>); a frame after \<^verbatim>\<open>fillna('')\<close> has \<open>'t = string\<close> and
  \<open>'n = int filled\<close>, where a blank numeric cell has become the string \<^verbatim>\<open>''\<close>.
\<close>

datatype 'a filled = Blank | Val 'a

datatype number = NegInf | Fin rat | PosInf

record ('t, 'n) patient =
  patient_id :: int
  name :: 't
  age :: 'n
  gender :: 't
  contact :: 't
  address :: 't
  email :: 't
  registration_date :: 't
  blood_group :: 't

record 't appointment =
  appointment_id :: int
  appt_patient_id :: int
  appt_patient_name :: 't
  doctor_name :: 't
  department :: 't
  appointment_date :: 't
  appointment_time :: 't
  appt_status :: 't
  appt_notes :: 't

record 't medical_record =
  record_id :: int
  med_patient_id :: int
  visit_date :: 't
  symptoms :: 't
  diagnosis :: 't
  treatment :: 't
  medication :: 't
  tests :: 't
  med_notes :: 't

record ('t, 'n) bill =
  bill_id :: int
  bill_patient_id :: int
  bill_patient_name :: 't
  bill_date :: 't
  service_type :: 't
  description :: 't
  amount :: 'n
  bill_status :: 't
  due_date :: 't

type_synonym patient_row = "(string option, int option) patient"
type_synonym appointment_row = "string option appointment"
type_synonym medical_row = "string option medical_record"
type_synonym bill_row = "(string option, number option) bill"

type_synonym patient_filled = "(string, int filled) patient"
type_synonym appointment_filled = "string appointment"
type_synonym bill_filled = "(string, number filled) bill"

text \<open>
  The four files. A file holds a frame, or is absent, or is there with content that
  \<^verbatim>\<open>read_csv\<close> cannot parse; in the last two cases \<^verbatim>\<open>read_csv\<close> raises
  (\<open>None\<close>), and every operation catches that at its own boundary. Writing with
  \<^verbatim>\<open>to_csv\<close> is taken to succeed.
\<close>

datatype 'a csv_file = Absent | Malformed | Frame "'a list"

definition read_csv :: "'a csv_file \<Rightarrow> 'a list option" where
  "read_csv f = (case f of Frame rows \<Rightarrow> Some rows | _ \<Rightarrow> None)"

definition path_exists :: "'a csv_file \<Rightarrow> bool" where
  "path_exists f = (f \<noteq> Absent)"

record store =
  patients_file :: "patient_row csv_file"
  appointments_file :: "appointment_row csv_file"
  medical_file :: "medical_row csv_file"
  billing_file :: "bill_row csv_file"

text \<open>
  \<^verbatim>\<open>to_csv\<close> writes the empty string as an empty field, and \<^verbatim>\<open>read_csv\<close> reads an
  empty field as NaN: a text argument reaches the next read through \<open>csv_text\<close>.
\<close>

definition csv_text :: "string \<Rightarrow> string option" where
  "csv_text s = (if s = [] then None else Some s)"

text \<open>\<^verbatim>\<open>fillna('')\<close>, cell by cell and row by row.\<close>

definition fill_text :: "string option \<Rightarrow> string" where
  "fill_text c = (case c of None \<Rightarrow> [] | Some s \<Rightarrow> s)"

definition fill_num :: "'a option \<Rightarrow> 'a filled" where
  "fill_num c = (case c of None \<Rightarrow> Blank | Some v \<Rightarrow> Val v)"

text \<open>\<^verbatim>\<open>dropna()\<close>: the cells that are not NaN.\<close>

definition dropna :: "'a option list \<Rightarrow> 'a list" where
  "dropna col = concat (map (\<lambda>c. case c of None \<Rightarrow> [] | Some v \<Rightarrow> [v]) col)"

definition fillna_patient :: "patient_row \<Rightarrow> patient_filled" where
  "fillna_patient p =
     \<lparr>patient_id = patient_id p, name = fill_text (name p), age = fill_num (age p),
      gender = fill_text (gender p), contact = fill_text (contact p),
      address = fill_text (address p), email = fill_text (email p),
      registration_date = fill_text (registration_date p),
      blood_group = fill_text (blood_group p)\<rparr>"

definition fillna_appointment :: "appointment_row \<Rightarrow> appointment_filled" where
  "fillna_appointment a =
     \<lparr>appointment_id = appointment_id a, appt_patient_id = appt_patient_id a,
      appt_patient_name = fill_text (appt_patient_name a),
      doctor_name = fill_text (doctor_name a), department = fill_text (department a),
      appointment_date = fill_text (appointment_date a),
      appointment_time = fill_text (appointment_time a),
      appt_status = fill_text (appt_status a), appt_notes = fill_text (appt_notes a)\<rparr>"

definition fillna_bill :: "bill_row \<Rightarrow> bill_filled" where
  "fillna_bill b =
     \<lparr>bill_id = bill_id b, bill_patient_id = bill_patient_id b,
      bill_patient_name = fill_text (bill_patient_name b), bill_date = fill_text (bill_date b),
      service_type = fill_text (service_type b), description = fill_text (description b),
      amount = fill_num (amount b), bill_status = fill_text (bill_status b),
      due_date = fill_text (due_date b)\<rparr>"

section \<open>The identity allocator\<close>

text \<open>
  \<^verbatim>\<open>_generate_id(df, id_column)\<close> looks at one column of the frame. After
  \<^verbatim>\<open>read_csv\<close> a column is either numeric (\<^verbatim>\<open>int64\<close> or \<^verbatim>\<open>float64\<close>), with
  cells that are numbers or NaN, or of dtype \<^verbatim>\<open>object\<close>, with cells that are text or
  NaN: one cell that is not a number makes every cell of the column text. The text of an id
  cell is kept as an ASCII string (\<open>String.literal\<close>).
\<close>

datatype id_column = Numeric "number option list" | Object "String.literal option list"

definition column_length :: "id_column \<Rightarrow> nat" where
  "column_length col = (case col of Numeric cells \<Rightarrow> length cells | Object cells \<Rightarrow> length cells)"

text \<open>The id column of a frame of the model, where every row has an integer id.\<close>

definition int_ids :: "int list \<Rightarrow> id_column" where
  "int_ids ids = Numeric (map (\<lambda>i. Some (Fin (of_int i))) ids)"

text \<open>
  \<^verbatim>\<open>df[id_column].max()\<close> skips NaN cells. On a numeric column it is the greatest number,
  and NaN when no cell is left. On an object column without NaN it is the greatest text in
  the order of the code points; there a NaN cell is replaced by the float \<^verbatim>\<open>-inf\<close>
  before the comparison, and comparing it with text raises \<^verbatim>\<open>TypeError\<close> (\<open>None\<close>).
\<close>

datatype py_value = PyNaN | PyNum number | PyStr String.literal

fun number_max :: "number \<Rightarrow> number \<Rightarrow> number" where
  "number_max PosInf y = PosInf"
| "number_max x PosInf = PosInf"
| "number_max NegInf y = y"
| "number_max x NegInf = x"
| "number_max (Fin a) (Fin b) = Fin (max a b)"

fun numeric_max :: "number option list \<Rightarrow> number option" where
  "numeric_max [] = None"
| "numeric_max (None # cs) = numeric_max cs"
| "numeric_max (Some x # cs) =
     (case numeric_max cs of None \<Rightarrow> Some x | Some m \<Rightarrow> Some (number_max x m))"

definition column_max :: "id_column \<Rightarrow> py_value option" where
  "column_max col =
     (case col of
        Numeric cells \<Rightarrow>
          (case numeric_max cells of None \<Rightarrow> Some PyNaN | Some m \<Rightarrow> Some (PyNum m))
      | Object cells \<Rightarrow>
          (case dropna cells of
             [] \<Rightarrow> Some PyNaN
           | t # ts \<Rightarrow> if None \<in> set cells then None else Some (PyStr (fold max ts t))))"

text \<open>
  \<^verbatim>\<open>int(x)\<close>. A finite float is truncated towards zero; an infinity raises
  \<^verbatim>\<open>OverflowError\<close> and NaN raises \<^verbatim>\<open>ValueError\<close>. A string is stripped of
  white space and must then be an optional sign and decimal digits, single underscores
  allowed between digits, at most 4300 digits; anything else raises \<^verbatim>\<open>ValueError\<close>.
\<close>

definition py_trunc :: "rat \<Rightarrow> int" where
  "py_trunc r = (if 0 \<le> r then \<lfloor>r\<rfloor> else \<lceil>r\<rceil>)"

definition is_space :: "char \<Rightarrow> bool" where
  "is_space c =
     (let n = (of_char c :: nat) in (9 \<le> n \<and> n \<le> 13) \<or> (28 \<le> n \<and> n \<le> 32))"

definition is_digit :: "char \<Rightarrow> bool" where
  "is_digit c = (let n = (of_char c :: nat) in 48 \<le> n \<and> n \<le> 57)"

definition digit_value :: "char \<Rightarrow> nat" where
  "digit_value c = of_char c - 48"

definition strip :: "string \<Rightarrow> string" where
  "strip s = rev (dropWhile is_space (rev (dropWhile is_space s)))"

fun parse_digits :: "nat \<Rightarrow> string \<Rightarrow> nat option" where
  "parse_digits acc [] = Some acc"
| "parse_digits acc [c] = (if is_digit c then Some (10 * acc + digit_value c) else None)"
| "parse_digits acc (c # d # cs) =
     (if is_digit c then parse_digits (10 * acc + digit_value c) (d # cs)
      else if c = CHR ''_'' \<and> is_digit d then parse_digits (10 * acc + digit_value d) cs
      else None)"

definition int_of_text :: "string \<Rightarrow> int option" where
  "int_of_text s =
     (let t = strip s;
          negative = (case t of c # _ \<Rightarrow> c = CHR ''-'' | [] \<Rightarrow> False);
          body = (case t of c # cs \<Rightarrow> if c = CHR ''-'' \<or> c = CHR ''+'' then cs else t | [] \<Rightarrow> [])
      in case body of
           [] \<Rightarrow> None
         | d # ds \<Rightarrow>
             if \<not> is_digit d \<or> 4300 < length (filter is_digit body) then None
             else (case parse_digits (digit_value d) ds of
                     None \<Rightarrow> None
                   | Some n \<Rightarrow> Some (if negative then - int n else int n)))"

definition py_int :: "py_value \<Rightarrow> int option" where
  "py_int v =
     (case v of
        PyNaN \<Rightarrow> None
      | PyNum x \<Rightarrow> (case x of Fin r \<Rightarrow> Some (py_trunc r) | _ \<Rightarrow> None)
      | PyStr s \<Rightarrow> int_of_text (String.explode s))"

text \<open>
  \<^verbatim>\<open>_generate_id\<close>: 1001 for a frame without rows; else the maximum of the column, 1001
  if that is NaN, and its integer plus one otherwise; the bare \<^verbatim>\<open>except\<close> answers 1001
  whenever \<^verbatim>\<open>max()\<close> or \<^verbatim>\<open>int()\<close> raises.
\<close>

definition generate_id :: "id_column \<Rightarrow> int" where
  "generate_id col =
     (if column_length col = 0 then 1001
      else case column_max col of
             None \<Rightarrow> 1001
           | Some max_id \<Rightarrow>
               if max_id = PyNaN then 1001
               else (case py_int max_id of None \<Rightarrow> 1001 | Some i \<Rightarrow> i + 1))"

section \<open>Stringification and pattern search\<close>

text \<open>
  \<^verbatim>\<open>astype(str)\<close> on the integer id column gives each id in decimal; on the name column it
  leaves text as it is and turns a NaN cell into the text \<^verbatim>\<open>nan\<close>.
\<close>

definition digit_char :: "nat \<Rightarrow> char" where
  "digit_char d = char_of (48 + d)"

fun str_nat :: "nat \<Rightarrow> string" where
  "str_nat n = (if n < 10 then [digit_char n] else str_nat (n div 10) @ [digit_char (n mod 10)])"

declare str_nat.simps [simp del]

definition str_int :: "int \<Rightarrow> string" where
  "str_int i = (if i < 0 then CHR ''-'' # str_nat (nat (- i)) else str_nat (nat i))"

definition astype_str :: "string option \<Rightarrow> string" where
  "astype_str c = (case c of None \<Rightarrow> ''nan'' | Some s \<Rightarrow> s)"

text \<open>
  \<^verbatim>\<open>Series.str.contains(pat, case=..., na=False)\<close> compiles \<^verbatim>\<open>pat\<close> as a regular
  expression (\<^verbatim>\<open>regex=True\<close> is the default) and keeps the rows where
  \<^verbatim>\<open>re.search\<close> finds a match, with \<^verbatim>\<open>re.IGNORECASE\<close> when
  \<^verbatim>\<open>case=False\<close>. The model covers the patterns built from ordinary characters and
  the dot: an ordinary character matches itself (or its other case), a dot matches any
  character but a newline. A pattern with any other metacharacter is outside the fragment
  and \<open>re_compile\<close> gives \<open>None\<close> for it.

  A string is a sequence of bytes here, and a character outside ASCII takes several of them.
  \<^verbatim>\<open>re.IGNORECASE\<close> folds the case of every Unicode letter, and a few letters outside
  ASCII match an ASCII letter; the dot matches one character, not one byte. So the fragment
  has ASCII terms and ASCII subjects only, where two characters match without regard to case
  exactly when \<open>lower_char\<close> makes them equal.
\<close>

definition is_ascii :: "char \<Rightarrow> bool" where
  "is_ascii c = ((of_char c :: nat) < 128)"

definition metachars :: string where
  "metachars = CHR 0x5C # ''^$.|?*+()[]{}''"

datatype atom = Lit char | AnyChar

definition compile_char :: "char \<Rightarrow> atom option" where
  "compile_char c =
     (if c = CHR ''.'' then Some AnyChar
      else if c \<in> set metachars then None
      else Some (Lit c))"

fun re_compile :: "string \<Rightarrow> atom list option" where
  "re_compile [] = Some []"
| "re_compile (c # cs) =
     (case compile_char c of
        None \<Rightarrow> None
      | Some a \<Rightarrow> (case re_compile cs of None \<Rightarrow> None | Some as \<Rightarrow> Some (a # as)))"

definition lower_char :: "char \<Rightarrow> char" where
  "lower_char c =
     (let n = (of_char c :: nat) in if 65 \<le> n \<and> n \<le> 90 then char_of (n + 32) else c)"

fun match_atom :: "bool \<Rightarrow> atom \<Rightarrow> char \<Rightarrow> bool" where
  "match_atom ignorecase (Lit c) d =
     (if ignorecase then lower_char c = lower_char d else c = d)"
| "match_atom ignorecase AnyChar d = (d \<noteq> CHR 0x0A)"

fun match_here :: "bool \<Rightarrow> atom list \<Rightarrow> string \<Rightarrow> bool" where
  "match_here ignorecase [] s = True"
| "match_here ignorecase (a # as) [] = False"
| "match_here ignorecase (a # as) (d # s) =
     (match_atom ignorecase a d \<and> match_here ignorecase as s)"

fun re_search :: "bool \<Rightarrow> atom list \<Rightarrow> string \<Rightarrow> bool" where
  "re_search ignorecase pat [] = match_here ignorecase pat []"
| "re_search ignorecase pat (d # s) =
     (match_here ignorecase pat (d # s) \<or> re_search ignorecase pat s)"

section \<open>The record manager\<close>

text \<open>
  Each operation reads its files first; when \<^verbatim>\<open>read_csv\<close> raises, the
  \<^verbatim>\<open>except\<close> clause of the operation answers \<^verbatim>\<open>None\<close> (for an id) or an empty
  frame and writes nothing. The date strings that the source takes from
  \<^verbatim>\<open>datetime.now()\<close> are parameters. Arguments have the types the interactive caller
  passes: text, an integer age and patient id, and for the amount the value of
  \<^verbatim>\<open>float(amount)\<close>, a number or NaN (\<open>None\<close>).
\<close>

definition add_patient ::
  "store \<Rightarrow> string \<Rightarrow> string \<Rightarrow> int \<Rightarrow> string \<Rightarrow> string \<Rightarrow> string \<Rightarrow> string \<Rightarrow> string
     \<Rightarrow> int option \<times> store" where
  "add_patient st today nm ag gen con addr em bg =
     (case read_csv (patients_file st) of
        None \<Rightarrow> (None, st)
      | Some patients_df \<Rightarrow>
          let new_patient =
                \<lparr>patient_id = generate_id (int_ids (map patient_id patients_df)),
                 name = csv_text nm, age = Some ag, gender = csv_text gen,
                 contact = csv_text con, address = csv_text addr, email = csv_text em,
                 registration_date = csv_text today, blood_group = csv_text bg\<rparr>
          in (Some (patient_id new_patient),
              st\<lparr>patients_file := Frame (patients_df @ [new_patient])\<rparr>))"

definition get_all_patients :: "store \<Rightarrow> patient_filled list" where
  "get_all_patients st =
     (case read_csv (patients_file st) of None \<Rightarrow> [] | Some df \<Rightarrow> map fillna_patient df)"

datatype search_result = Found "patient_filled list" | Outside_fragment

definition search_patients :: "store \<Rightarrow> string \<Rightarrow> search_result" where
  "search_patients st search_term =
     (case read_csv (patients_file st) of
        None \<Rightarrow> Found []
      | Some patients_df \<Rightarrow>
          if patients_df = [] then Found []
          else if \<not> (list_all is_ascii search_term
                       \<and> list_all (\<lambda>p. list_all is_ascii (astype_str (name p))) patients_df)
          then Outside_fragment
          else (case re_compile search_term of
                  None \<Rightarrow> Outside_fragment
                | Some pat \<Rightarrow>
                    Found (map fillna_patient
                      (filter (\<lambda>p. re_search True pat (astype_str (name p))
                                    \<or> re_search False pat (str_int (patient_id p)))
                         patients_df))))"

definition get_patient_by_id :: "store \<Rightarrow> int \<Rightarrow> patient_filled list" where
  "get_patient_by_id st pid =
     (case read_csv (patients_file st) of
        None \<Rightarrow> []
      | Some patients_df \<Rightarrow>
          map fillna_patient (filter (\<lambda>p. patient_id p = pid) patients_df))"

definition schedule_appointment ::
  "store \<Rightarrow> int \<Rightarrow> string \<Rightarrow> string \<Rightarrow> string \<Rightarrow> string \<Rightarrow> string \<Rightarrow> int option \<times> store" where
  "schedule_appointment st pid doctor dept adate atime notes =
     (case read_csv (appointments_file st) of
        None \<Rightarrow> (None, st)
      | Some appointments_df \<Rightarrow>
         (case read_csv (patients_file st) of
            None \<Rightarrow> (None, st)
          | Some patients_df \<Rightarrow>
             (case filter (\<lambda>p. patient_id p = pid) patients_df of
                [] \<Rightarrow> (None, st)
              | first # _ \<Rightarrow>
                  let new_appointment =
                        \<lparr>appointment_id =
                           generate_id (int_ids (map appointment_id appointments_df)),
                         appt_patient_id = pid, appt_patient_name = name first,
                         doctor_name = csv_text doctor, department = csv_text dept,
                         appointment_date = csv_text adate, appointment_time = csv_text atime,
                         appt_status = Some ''Scheduled'', appt_notes = csv_text notes\<rparr>
                  in (Some (appointment_id new_appointment),
                      st\<lparr>appointments_file := Frame (appointments_df @ [new_appointment])\<rparr>))))"

definition get_all_appointments :: "store \<Rightarrow> appointment_filled list" where
  "get_all_appointments st =
     (case read_csv (appointments_file st) of None \<Rightarrow> [] | Some df \<Rightarrow> map fillna_appointment df)"

definition add_medical_record ::
  "store \<Rightarrow> string \<Rightarrow> int \<Rightarrow> string \<Rightarrow> string \<Rightarrow> string \<Rightarrow> string \<Rightarrow> string \<Rightarrow> string
     \<Rightarrow> int option \<times> store" where
  "add_medical_record st today pid sympt diagn treat medic tst notes =
     (case read_csv (medical_file st) of
        None \<Rightarrow> (None, st)
      | Some medical_df \<Rightarrow>
          let new_record =
                \<lparr>record_id = generate_id (int_ids (map record_id medical_df)),
                 med_patient_id = pid, visit_date = csv_text today, symptoms = csv_text sympt,
                 diagnosis = csv_text diagn, treatment = csv_text treat,
                 medication = csv_text medic, tests = csv_text tst, med_notes = csv_text notes\<rparr>
          in (Some (record_id new_record),
              st\<lparr>medical_file := Frame (medical_df @ [new_record])\<rparr>))"

definition generate_bill ::
  "store \<Rightarrow> string \<Rightarrow> string \<Rightarrow> int \<Rightarrow> string \<Rightarrow> string \<Rightarrow> number option
     \<Rightarrow> int option \<times> store" where
  "generate_bill st today in_30_days pid stype descr amt =
     (case read_csv (billing_file st) of
        None \<Rightarrow> (None, st)
      | Some billing_df \<Rightarrow>
         (case read_csv (patients_file st) of
            None \<Rightarrow> (None, st)
          | Some patients_df \<Rightarrow>
             (case filter (\<lambda>p. patient_id p = pid) patients_df of
                [] \<Rightarrow> (None, st)
              | first # _ \<Rightarrow>
                  let new_bill =
                        \<lparr>bill_id = generate_id (int_ids (map bill_id billing_df)),
                         bill_patient_id = pid, bill_patient_name = name first,
                         bill_date = csv_text today, service_type = csv_text stype,
                         description = csv_text descr, amount = amt,
                         bill_status = Some ''Pending'', due_date = csv_text in_30_days\<rparr>
                  in (Some (bill_id new_bill),
                      st\<lparr>billing_file := Frame (billing_df @ [new_bill])\<rparr>))))"

definition get_all_bills :: "store \<Rightarrow> bill_filled list" where
  "get_all_bills st =
     (case read_csv (billing_file st) of None \<Rightarrow> [] | Some df \<Rightarrow> map fillna_bill df)"

section \<open>Column reductions\<close>

text \<open>
  The reports work on frames that went through \<^verbatim>\<open>fillna('')\<close>. In such a frame no
  cell is NaN any more: a blank numeric cell is the string \<^verbatim>\<open>''\<close>, the column has
  dtype \<^verbatim>\<open>object\<close>, and a reduction over it adds or compares numbers with strings. On
  a column that is part numbers and part \<^verbatim>\<open>''\<close> that raises \<^verbatim>\<open>TypeError\<close>;
  on a column that is all \<^verbatim>\<open>''\<close> the reduction gives a string, and the
  \<^verbatim>\<open>float(...)\<close> or \<^verbatim>\<open>int(...)\<close> around it (or the numeric check inside
  \<^verbatim>\<open>mean\<close>) raises. Either way a blank cell makes the reduction, read together with
  its conversion, raise. A reduction over no cell at all gives 0 for a sum and NaN
  otherwise.
\<close>

datatype 'a reduced = Raises | NaN | Number 'a | Outside_model

fun values_of :: "'a filled list \<Rightarrow> 'a list option" where
  "values_of [] = Some []"
| "values_of (Blank # cs) = None"
| "values_of (Val v # cs) = (case values_of cs of None \<Rightarrow> None | Some vs \<Rightarrow> Some (v # vs))"

definition isna_filled :: "'a filled \<Rightarrow> bool" where
  "isna_filled c = False"

definition isna_all :: "'a filled list \<Rightarrow> bool" where
  "isna_all col = list_all isna_filled col"

text \<open>
  The amounts are doubles, and the sum of a column is a chain of floating-point additions in
  an order that pandas chooses. An addition whose exact result is a double returns it. When
  the finite values are multiples of one power of two \<open>1/D\<close> with \<open>D \<le> 2^1074\<close> and their
  absolute values add up to at most \<open>2^53\<close> such units (\<open>exact_grid\<close>), every partial sum is a
  double in whatever order, so the result is the exact sum; whole-number amounts up to
  \<open>2^53\<close> in total are the case \<open>D = 1\<close>. Otherwise an addition may round, and the model
  does not say what the result is (\<open>Outside_model\<close>). With finite values on such a grid,
  an infinity among the values makes the sum that infinity, and both infinities make it NaN.
\<close>

function is_pow2 :: "int \<Rightarrow> bool" where
  "is_pow2 n = (if n \<le> 1 then n = 1 else even n \<and> is_pow2 (n div 2))"
  by pat_completeness auto
termination
  by (relation "measure nat") auto

declare is_pow2.simps [simp del]

function odd_part :: "int \<Rightarrow> int" where
  "odd_part n = (if n \<le> 0 then 0 else if even n then odd_part (n div 2) else n)"
  by pat_completeness auto
termination
  by (relation "measure nat") auto

declare odd_part.simps [simp del]

definition denominator_of :: "rat \<Rightarrow> int" where
  "denominator_of r = snd (quotient_of r)"

definition exact_grid :: "rat list \<Rightarrow> bool" where
  "exact_grid xs =
     (list_all (\<lambda>x. is_pow2 (denominator_of x)) xs
      \<and> Max (set (1 # map denominator_of xs)) \<le> 2 ^ 1074
      \<and> sum_list (map abs xs) * of_int (Max (set (1 # map denominator_of xs))) \<le> 2 ^ 53)"

text \<open>
  A rational is a double when, in lowest terms, its denominator is a power of two up to
  \<open>2^1074\<close>, the odd part of its numerator is below \<open>2^53\<close> and its absolute value is
  below \<open>2^1024\<close>.
\<close>

definition is_double :: "rat \<Rightarrow> bool" where
  "is_double r =
     (is_pow2 (denominator_of r) \<and> denominator_of r \<le> 2 ^ 1074
      \<and> odd_part \<bar>fst (quotient_of r)\<bar> < 2 ^ 53 \<and> \<bar>r\<bar> < 2 ^ 1024)"

definition fin_values :: "number list \<Rightarrow> rat list" where
  "fin_values xs = concat (map (\<lambda>x. case x of Fin r \<Rightarrow> [r] | _ \<Rightarrow> []) xs)"

definition float_sum :: "number list \<Rightarrow> number reduced" where
  "float_sum xs =
     (if \<not> exact_grid (fin_values xs) then Outside_model
      else if PosInf \<in> set xs \<and> NegInf \<in> set xs then NaN
      else if PosInf \<in> set xs then Number PosInf
      else if NegInf \<in> set xs then Number NegInf
      else Number (Fin (sum_list (fin_values xs))))"

definition series_sum :: "number filled list \<Rightarrow> number reduced" where
  "series_sum col = (case values_of col of None \<Rightarrow> Raises | Some vs \<Rightarrow> float_sum vs)"

text \<open>
  \<^verbatim>\<open>mean()\<close> divides the sum by the number of cells; the quotient of a finite sum is
  exact when it is a double, and is outside the model when the division rounds.
\<close>

definition series_mean :: "number filled list \<Rightarrow> number reduced" where
  "series_mean col =
     (case values_of col of
        None \<Rightarrow> Raises
      | Some [] \<Rightarrow> NaN
      | Some (v # vs) \<Rightarrow>
          (case float_sum (v # vs) of
             Number (Fin s) \<Rightarrow>
               if is_double (s / of_nat (length (v # vs)))
               then Number (Fin (s / of_nat (length (v # vs)))) else Outside_model
           | r \<Rightarrow> r))"

definition series_min :: "int filled list \<Rightarrow> int reduced" where
  "series_min col =
     (case values_of col of
        None \<Rightarrow> Raises
      | Some [] \<Rightarrow> NaN
      | Some (v # vs) \<Rightarrow> Number (fold min vs v))"

definition series_max :: "int filled list \<Rightarrow> int reduced" where
  "series_max col =
     (case values_of col of
        None \<Rightarrow> Raises
      | Some [] \<Rightarrow> NaN
      | Some (v # vs) \<Rightarrow> Number (fold max vs v))"

text \<open>
  \<^verbatim>\<open>value_counts()\<close>: the distinct values with their counts, the most frequent first,
  equal counts in the order of first appearance. \<^verbatim>\<open>mode()\<close>: the most frequent
  values in ascending order. \<^verbatim>\<open>groupby(key)[col].sum()\<close>: one sum per distinct key,
  keys ascending. \<^verbatim>\<open>idxmax()\<close>: the first label that carries the greatest value; it
  raises on an empty series, and the model does not follow it through sums that are NaN or
  rounded.
\<close>

definition value_counts :: "string list \<Rightarrow> (string \<times> nat) list" where
  "value_counts col =
     sort_key (\<lambda>kc. - int (snd kc))
       (map (\<lambda>k. (k, count_list col k)) (rev (remdups (rev col))))"

definition series_mode :: "string list \<Rightarrow> string list" where
  "series_mode col =
     (case value_counts col of
        [] \<Rightarrow> []
      | (k, c) # rest \<Rightarrow> sort (map fst (filter (\<lambda>kc. snd kc = c) ((k, c) # rest))))"

definition groupby_sum :: "(string \<times> number) list \<Rightarrow> (string \<times> number reduced) list" where
  "groupby_sum rows =
     map (\<lambda>k. (k, float_sum (map snd (filter (\<lambda>r. fst r = k) rows))))
       (sort (remdups (map fst rows)))"

fun numbers_of :: "(string \<times> number reduced) list \<Rightarrow> (string \<times> number) list option" where
  "numbers_of [] = Some []"
| "numbers_of ((k, Number x) # rest) =
     (case numbers_of rest of None \<Rightarrow> None | Some kxs \<Rightarrow> Some ((k, x) # kxs))"
| "numbers_of ((k, r) # rest) = None"

fun first_greatest :: "(string \<times> number) list \<Rightarrow> string option" where
  "first_greatest [] = None"
| "first_greatest ((k, v) # rest) =
     (if \<forall>kv\<in>set rest. number_max (snd kv) v = v then Some k else first_greatest rest)"

definition idxmax :: "(string \<times> number reduced) list \<Rightarrow> string reduced" where
  "idxmax group_sums =
     (case numbers_of group_sums of
        None \<Rightarrow> Outside_model
      | Some kxs \<Rightarrow> (case first_greatest kxs of None \<Rightarrow> Raises | Some k \<Rightarrow> Number k))"

section \<open>The aggregator\<close>

text \<open>
  A report is a Python dict, here an association list in the order of insertion. The text
  \<^verbatim>\<open>str(e)\<close> of a caught exception is chosen by the library; \<open>VExcText\<close> stands
  for it. \<open>VOutside\<close> is a value that the model does not determine: a floating-point result
  that was rounded, or a label that depends on one. Rendering the charts is left to the
  plotting library and is not modelled.
\<close>

datatype val = VInt int | VNum number | VNaN | VStr string | VNone | VExcText | VOutside
  | VDict "(string \<times> val) list"

type_synonym dict = "(string \<times> val) list"

definition dict_get :: "dict \<Rightarrow> string \<Rightarrow> val \<Rightarrow> val" where
  "dict_get d k dflt = (case map_of d k of None \<Rightarrow> dflt | Some v \<Rightarrow> v)"

text \<open>
  \<^verbatim>\<open>_convert_numpy_types\<close> goes through a dict entry by entry; it leaves integers,
  floats and strings as they are and turns a NaN (\<^verbatim>\<open>pd.isna\<close>) into \<^verbatim>\<open>None\<close>.
\<close>

primrec convert_numpy_types :: "val \<Rightarrow> val" where
  "convert_numpy_types (VInt i) = VInt i"
| "convert_numpy_types (VNum x) = VNum x"
| "convert_numpy_types VNaN = VNone"
| "convert_numpy_types (VStr s) = VStr s"
| "convert_numpy_types VNone = VNone"
| "convert_numpy_types VExcText = VExcText"
| "convert_numpy_types VOutside = VOutside"
| "convert_numpy_types (VDict kvs) = VDict (map (map_prod id convert_numpy_types) kvs)"

definition convert_stats :: "dict \<Rightarrow> dict" where
  "convert_stats stats = map (map_prod id convert_numpy_types) stats"

text \<open>
  \<^verbatim>\<open>float(x)\<close>, \<^verbatim>\<open>int(x)\<close> and \<^verbatim>\<open>str(x)\<close> of a reduction; \<open>None\<close> when the
  reduction or the conversion raises (\<^verbatim>\<open>int\<close> of a NaN does).
\<close>

definition float_val :: "number reduced \<Rightarrow> val option" where
  "float_val r =
     (case r of
        Raises \<Rightarrow> None | NaN \<Rightarrow> Some VNaN | Number x \<Rightarrow> Some (VNum x)
      | Outside_model \<Rightarrow> Some VOutside)"

definition int_val :: "int reduced \<Rightarrow> val option" where
  "int_val r =
     (case r of
        Raises \<Rightarrow> None | NaN \<Rightarrow> None | Number x \<Rightarrow> Some (VInt x)
      | Outside_model \<Rightarrow> Some VOutside)"

definition str_val :: "string reduced \<Rightarrow> val option" where
  "str_val r =
     (case r of
        Raises \<Rightarrow> None | NaN \<Rightarrow> Some (VStr ''nan'') | Number k \<Rightarrow> Some (VStr k)
      | Outside_model \<Rightarrow> Some VOutside)"

definition counts_dict :: "(string \<times> nat) list \<Rightarrow> val" where
  "counts_dict kcs = VDict (map (\<lambda>kc. (fst kc, VInt (int (snd kc)))) kcs)"

definition error_payload :: dict where
  "error_payload = [(''error'', VExcText)]"

definition patient_stats :: "patient_filled list \<Rightarrow> dict option" where
  "patient_stats patients_df =
     (let gender_counts = value_counts (map gender patients_df);
          ages = map age patients_df
      in case (if \<not> isna_all ages
               then float_val (series_mean (map (map_filled (\<lambda>a. Fin (of_int a))) ages))
               else Some (VInt 0)) of
           None \<Rightarrow> None
         | Some average_age \<Rightarrow>
        (case int_val (series_min ages) of
           None \<Rightarrow> None
         | Some min_age \<Rightarrow>
        (case int_val (series_max ages) of
           None \<Rightarrow> None
         | Some max_age \<Rightarrow>
             Some [(''total_patients'', VInt (int (length patients_df))),
                   (''average_age'', average_age),
                   (''min_age'', min_age),
                   (''max_age'', max_age),
                   (''gender_distribution'', counts_dict gender_counts),
                   (''most_common_blood_group'',
                      (case series_mode (map blood_group patients_df) of
                         [] \<Rightarrow> VStr ''N/A'' | m # _ \<Rightarrow> VStr m))])))"

definition generate_patient_statistics :: "store \<Rightarrow> dict" where
  "generate_patient_statistics st =
     (let patients_df = get_all_patients st
      in if patients_df = []
         then [(''error'', VStr ''No patient data available''), (''total_patients'', VInt 0)]
         else (case patient_stats patients_df of
                 None \<Rightarrow> error_payload
               | Some stats \<Rightarrow> convert_stats stats))"

definition generate_appointment_analytics :: "store \<Rightarrow> dict" where
  "generate_appointment_analytics st =
     (let appointments_df = get_all_appointments st
      in if appointments_df = []
         then [(''error'', VStr ''No appointment data available''),
               (''total_appointments'', VInt 0)]
         else
           let dept_counts = value_counts (map department appointments_df)
           in convert_stats
              [(''total_appointments'', VInt (int (length appointments_df))),
               (''scheduled_appointments'',
                  VInt (int (length (filter (\<lambda>a. appt_status a = ''Scheduled'') appointments_df)))),
               (''completed_appointments'',
                  VInt (int (length (filter (\<lambda>a. appt_status a = ''Completed'') appointments_df)))),
               (''department_distribution'', counts_dict dept_counts),
               (''top_department'',
                  (case dept_counts of [] \<Rightarrow> VStr ''N/A'' | (k, _) # _ \<Rightarrow> VStr k))])"

text \<open>
  In \<^verbatim>\<open>generate_financial_reports\<close> a blank amount makes the sum of the whole column
  raise, whatever the grouping by service type did with it before.
\<close>

definition financial_stats :: "bill_filled list \<Rightarrow> dict option" where
  "financial_stats billing_df =
     (case values_of (map amount billing_df) of
        None \<Rightarrow> None
      | Some amounts \<Rightarrow>
        let revenue_by_service = groupby_sum (zip (map service_type billing_df) amounts)
        in
        (case float_val (series_sum (map amount billing_df)) of
           None \<Rightarrow> None
         | Some total_revenue \<Rightarrow>
        (case float_val (series_sum
                 (map amount (filter (\<lambda>b. bill_status b = ''Pending'') billing_df))) of
           None \<Rightarrow> None
         | Some pending_amount \<Rightarrow>
        (case float_val (series_sum
                 (map amount (filter (\<lambda>b. bill_status b = ''Paid'') billing_df))) of
           None \<Rightarrow> None
         | Some paid_amount \<Rightarrow>
        (case (if \<not> isna_all (map amount billing_df)
               then float_val (series_mean (map amount billing_df)) else Some (VInt 0)) of
           None \<Rightarrow> None
         | Some average_bill_amount \<Rightarrow>
        (case (if revenue_by_service \<noteq> [] then str_val (idxmax revenue_by_service)
               else Some (VStr ''N/A'')) of
           None \<Rightarrow> None
         | Some most_profitable_service \<Rightarrow>
             Some [(''total_revenue'', total_revenue),
                   (''total_bills'', VInt (int (length billing_df))),
                   (''pending_amount'', pending_amount),
                   (''paid_amount'', paid_amount),
                   (''average_bill_amount'', average_bill_amount),
                   (''most_profitable_service'', most_profitable_service)]))))))"

definition generate_financial_reports :: "store \<Rightarrow> dict" where
  "generate_financial_reports st =
     (let billing_df = get_all_bills st
      in if billing_df = []
         then [(''error'', VStr ''No billing data available''), (''total_revenue'', VInt 0)]
         else (case financial_stats billing_df of
                 None \<Rightarrow> error_payload
               | Some stats \<Rightarrow> convert_stats stats))"

definition generate_medical_analytics :: "store \<Rightarrow> dict" where
  "generate_medical_analytics st =
     (let no_data = [(''error'', VStr ''No medical records data available''),
                     (''total_medical_records'', VInt 0)]
      in if \<not> path_exists (medical_file st) then no_data
         else (case read_csv (medical_file st) of
                 None \<Rightarrow> error_payload
               | Some medical_df \<Rightarrow>
                   if medical_df = [] then no_data
                   else
                     let diagnosis_counts =
                           take 10 (value_counts (dropna (map diagnosis medical_df)))
                     in convert_stats
                        [(''total_medical_records'', VInt (int (length medical_df))),
                         (''diagnosis_distribution'', counts_dict (take 5 diagnosis_counts)),
                         (''most_common_diagnosis'',
                            (case diagnosis_counts of
                               [] \<Rightarrow> VStr ''N/A'' | (k, _) # _ \<Rightarrow> VStr k))]))"

text \<open>
  \<^verbatim>\<open>v > 0\<close> on a value of a report: a number is compared, NaN is not greater than 0,
  and \<^verbatim>\<open>None\<close>, a string or a dict raise \<^verbatim>\<open>TypeError\<close>. \<^verbatim>\<open>any(...)\<close>
  over a generator evaluates the comparisons in order and stops at the first that holds.
\<close>

datatype comparison = Cmp_true | Cmp_false | Cmp_raises | Cmp_outside

definition py_gt_zero :: "val \<Rightarrow> comparison" where
  "py_gt_zero v =
     (case v of
        VInt i \<Rightarrow> if 0 < i then Cmp_true else Cmp_false
      | VNum x \<Rightarrow>
          (case x of
             PosInf \<Rightarrow> Cmp_true | NegInf \<Rightarrow> Cmp_false
           | Fin r \<Rightarrow> if 0 < r then Cmp_true else Cmp_false)
      | VNaN \<Rightarrow> Cmp_false
      | VOutside \<Rightarrow> Cmp_outside
      | _ \<Rightarrow> Cmp_raises)"

fun py_any :: "comparison list \<Rightarrow> comparison" where
  "py_any [] = Cmp_false"
| "py_any (Cmp_true # cs) = Cmp_true"
| "py_any (Cmp_false # cs) = py_any cs"
| "py_any (Cmp_raises # cs) = Cmp_raises"
| "py_any (Cmp_outside # cs) = Cmp_outside"

text \<open>
  \<^verbatim>\<open>generate_dashboard_summary\<close> calls the four reports, puts their payloads under four
  keys and adds the timestamp (a parameter here). Then it looks four totals up in the
  payloads, with 0 for a missing key, draws the overview chart if one of them is positive,
  writes the dict with \<^verbatim>\<open>json.dump(..., default=str)\<close>, which accepts every value of
  a payload, and returns the dict. All of this is inside one \<^verbatim>\<open>try\<close>: when the
  comparison raises, or when \<^verbatim>\<open>dashboard_data.json\<close> cannot be opened for writing
  (the parameter \<open>json_writable\<close>), the \<^verbatim>\<open>except\<close> clause returns the dict
  \<^verbatim>\<open>{"error": str(e)}\<close> alone. When a total is a rounded floating-point value the
  model does not decide the comparison, and the result is \<open>Not_determined\<close>.
\<close>

datatype 'a outcome = Returns 'a | Not_determined

definition generate_dashboard_summary :: "store \<Rightarrow> string \<Rightarrow> bool \<Rightarrow> dict outcome" where
  "generate_dashboard_summary st now json_writable =
     (let patient_stats = generate_patient_statistics st;
          appointment_stats = generate_appointment_analytics st;
          financial_stats = generate_financial_reports st;
          medical_stats = generate_medical_analytics st;
          dashboard_data =
            [(''patient_stats'', VDict patient_stats),
             (''appointment_stats'', VDict appointment_stats),
             (''financial_stats'', VDict financial_stats),
             (''medical_stats'', VDict medical_stats),
             (''timestamp'', VStr now)];
          summary_stats =
            [(''Total Patients'', dict_get patient_stats ''total_patients'' (VInt 0)),
             (''Total Appointments'', dict_get appointment_stats ''total_appointments'' (VInt 0)),
             (''Total Revenue'', dict_get financial_stats ''total_revenue'' (VInt 0)),
             (''Pending Bills'', dict_get financial_stats ''pending_amount'' (VInt 0))]
      in case py_any (map (\<lambda>kv. py_gt_zero (snd kv)) summary_stats) of
           Cmp_raises \<Rightarrow> Returns error_payload
         | Cmp_outside \<Rightarrow> Not_determined
         | _ \<Rightarrow> if json_writable then Returns dashboard_data else Returns error_payload)"


section \<open>Notions the properties are stated with\<close>

text \<open>
  A patient id is present in the Patient collection when the patients file can be read and
  some row carries the id.
\<close>

definition patient_exists :: "store \<Rightarrow> int \<Rightarrow> bool" where
  "patient_exists st pid =
     (case read_csv (patients_file st) of
        None \<Rightarrow> False
      | Some patients_df \<Rightarrow> pid \<in> set (map patient_id patients_df))"

text \<open>
  A sequence of \<^verbatim>\<open>add_patient\<close> calls, each with the date of its day and its seven
  arguments, and the invariant that every stored patient has an age that is present and not
  negative.
\<close>

type_synonym patient_args =
  "string \<times> string \<times> int \<times> string \<times> string \<times> string \<times> string \<times> string"

fun add_patients :: "store \<Rightarrow> patient_args list \<Rightarrow> store" where
  "add_patients st [] = st"
| "add_patients st ((today, nm, ag, gen, con, addr, em, bg) # rest) =
     add_patients (snd (add_patient st today nm ag gen con addr em bg)) rest"

definition supplied_age :: "patient_args \<Rightarrow> int" where
  "supplied_age args = (case args of (today, nm, ag, rest) \<Rightarrow> ag)"

definition ages_nonneg :: "store \<Rightarrow> bool" where
  "ages_nonneg st =
     (case read_csv (patients_file st) of
        None \<Rightarrow> True
      | Some patients_df \<Rightarrow>
          list_all (\<lambda>p. case age p of None \<Rightarrow> False | Some a \<Rightarrow> 0 \<le> a) patients_df)"

text \<open>The data of the scenarios: the patient John Smith and a store of four empty files.\<close>

definition john_smith :: patient_row where
  "john_smith =
     \<lparr>patient_id = 1001, name = Some ''John Smith'', age = Some 35, gender = Some ''Male'',
      contact = Some ''123-456-7890'', address = Some ''123 Main St'', email = None,
      registration_date = Some ''2024-01-10'', blood_group = None\<rparr>"

definition empty_store :: store where
  "empty_store =
     \<lparr>patients_file = Frame [], appointments_file = Frame [], medical_file = Frame [],
      billing_file = Frame []\<rparr>"

definition unnamed_patient :: patient_row where
  "unnamed_patient =
     \<lparr>patient_id = 1002, name = None, age = Some 28, gender = Some ''Female'',
      contact = Some ''555-0100'', address = Some ''9 Oak Ave'', email = None,
      registration_date = Some ''2024-01-11'', blood_group = Some ''A+''\<rparr>"


definition emma_jones :: patient_row where
  "emma_jones =
     \<lparr>patient_id = 1002, name = Some ''Emma Jones'', age = Some 28, gender = Some ''Female'',
      contact = Some ''555-0100'', address = Some ''9 Oak Ave'', email = None,
      registration_date = Some ''2024-01-11'', blood_group = Some ''A+''\<rparr>"

text \<open>
  An id column whose cells are integers or blank, the greatest integer in it, and what it
  means that an id is present in a column: a numeric cell has its value, or a text cell is
  its decimal numeral.
\<close>

definition int_cells :: "int option list \<Rightarrow> id_column" where
  "int_cells ids = Numeric (map (map_option (\<lambda>i. Fin (of_int i))) ids)"

fun greatest_id :: "int option list \<Rightarrow> int option" where
  "greatest_id [] = None"
| "greatest_id (None # cs) = greatest_id cs"
| "greatest_id (Some i # cs) =
     (case greatest_id cs of None \<Rightarrow> Some i | Some m \<Rightarrow> Some (max i m))"




definition mk_bill :: "int \<Rightarrow> string \<Rightarrow> number option \<Rightarrow> string \<Rightarrow> bill_row" where
  "mk_bill i stype amt status =
     \<lparr>bill_id = i, bill_patient_id = 1001, bill_patient_name = Some ''John Smith'',
      bill_date = Some ''2024-01-15'', service_type = Some stype, description = None,
      amount = amt, bill_status = Some status, due_date = Some ''2024-02-14''\<rparr>"


text \<open>
  A store on which the patient report fails and the financial report has no number for the
  total: the only patient has a blank age, there is no appointment, and the two bills have
  the amounts \<^verbatim>\<open>inf\<close> and \<^verbatim>\<open>-inf\<close>, which add up to NaN.
\<close>

definition troubled_store :: store where
  "troubled_store =
     \<lparr>patients_file = Frame [john_smith\<lparr>age := None\<rparr>], appointments_file = Frame [],
      medical_file = Frame [],
      billing_file =
        Frame [mk_bill 1001 ''Consultation'' (Some PosInf) ''Pending'',
               mk_bill 1002 ''Surgery'' (Some NegInf) ''Paid'']\<rparr>"

section \<open>Properties of the identity allocator\<close>

subsection \<open>The greatest integer of a column\<close>




subsection \<open>The allocator on a column of integers\<close>

lemma numeric_max_int_cells:
  "numeric_max (map (map_option (\<lambda>i. Fin (of_int i))) ids) =
     map_option (\<lambda>i. Fin (of_int i)) (greatest_id ids)"
proof (induction ids rule: greatest_id.induct)
  case 1
  show ?case by simp
next
  case (2 cs)
  then show ?case by simp
next
  case (3 i cs)
  then show ?case by (cases "greatest_id cs") (simp_all add: of_int_max)
qed

lemma py_trunc_of_int: "py_trunc (of_int i) = i"
  by (simp add: py_trunc_def)

lemma generate_id_int_cells:
  "generate_id (int_cells ids) =
     (if ids = [] then 1001
      else case greatest_id ids of None \<Rightarrow> 1001 | Some m \<Rightarrow> m + 1)"
  by (cases "greatest_id ids")
     (simp_all add: generate_id_def int_cells_def column_length_def column_max_def
        numeric_max_int_cells py_int_def py_trunc_of_int)

lemma greatest_id_all_present: "greatest_id (map Some (i # ids)) = Some (Max (set (i # ids)))"
proof (induction ids arbitrary: i)
  case Nil
  show ?case by simp
next
  case (Cons j ids)
  have "greatest_id (map Some (i # j # ids)) = Some (max i (Max (set (j # ids))))"
    using Cons [of j] by simp
  then show ?case by simp
qed

lemma generate_id_int_ids:
  "generate_id (int_ids ids) = (case ids of [] \<Rightarrow> 1001 | i # rest \<Rightarrow> Max (set ids) + 1)"
proof (cases ids)
  case Nil
  then show ?thesis
    by (simp add: generate_id_def int_ids_def column_length_def)
next
  case (Cons i rest)
  have "int_ids ids = int_cells (map Some ids)"
    by (simp add: int_ids_def int_cells_def)
  then show ?thesis
    using Cons greatest_id_all_present [of i rest]
    by (simp add: generate_id_int_cells)
qed

subsection \<open>Columns whose maximum is no integer\<close>




subsection \<open>The generated id\<close>




section \<open>Properties of the record manager\<close>

subsection \<open>The reference to an existing patient\<close>

lemma filter_id_empty:
  "pid \<notin> set (map patient_id ps) \<Longrightarrow> filter (\<lambda>p. patient_id p = pid) ps = []"
  by (induction ps) auto

text \<open>
  \<^verbatim>\<open>schedule_appointment\<close> and \<^verbatim>\<open>generate_bill\<close> look the patient up first: for an
  id that is not in the Patient collection they answer \<^verbatim>\<open>None\<close> and write nothing.
\<close>

lemma schedule_appointment_unknown_patient:
  "\<not> patient_exists st pid \<Longrightarrow>
     schedule_appointment st pid doctor dept adate atime notes = (None, st)"
  by (auto simp: patient_exists_def schedule_appointment_def filter_id_empty
      split: option.splits list.splits)

lemma generate_bill_unknown_patient:
  "\<not> patient_exists st pid \<Longrightarrow>
     generate_bill st today in_30_days pid stype descr amt = (None, st)"
  by (auto simp: patient_exists_def generate_bill_def filter_id_empty
      split: option.splits list.splits)

text \<open>
  \<^verbatim>\<open>add_medical_record\<close> has no such lookup: whenever the medical file can be read it
  answers an id and appends a row, whatever the patient id.
\<close>

lemma add_medical_record_never_checks:
  "read_csv (medical_file st) = Some medical_df \<Longrightarrow>
     fst (add_medical_record st today pid sympt diagn treat medic tst notes) \<noteq> None
     \<and> read_csv (medical_file
           (snd (add_medical_record st today pid sympt diagn treat medic tst notes)))
         \<noteq> Some medical_df"
  by (simp add: add_medical_record_def Let_def read_csv_def)

text \<open>
  C1. Creating a dependent record with a patient id that is not in the Patient collection
  should answer \<^verbatim>\<open>None\<close> and leave the target file unchanged. On the store of four
  empty files, where no patient exists, \<^verbatim>\<open>add_medical_record\<close> with patient id 9999
  answers the id 1001 and writes a medical record for patient 9999.
\<close>

theorem add_medical_record_unknown_patient:
  "\<not> patient_exists empty_store 9999
   \<and> add_medical_record empty_store ''2024-01-15'' 9999 ''fever'' ''flu'' ''rest'' ''none''
        ''none'' [] =
       (Some 1001,
        empty_store\<lparr>medical_file :=
          Frame [\<lparr>record_id = 1001, med_patient_id = 9999, visit_date = Some ''2024-01-15'',
                  symptoms = Some ''fever'', diagnosis = Some ''flu'', treatment = Some ''rest'',
                  medication = Some ''none'', tests = Some ''none'', med_notes = None\<rparr>]\<rparr>)"
  by (simp add: patient_exists_def empty_store_def add_medical_record_def read_csv_def
      generate_id_int_ids csv_text_def)

subsection \<open>Scheduling an appointment\<close>

text \<open>
  C5. If a patient with id 1001 exists and the Appointment collection is empty,
  \<^verbatim>\<open>schedule_appointment(1001, "Dr. Wilson", "Cardiology", "2024-01-15", "10:00 AM")\<close>
  answers the id 1001 (the ids of the appointments do not depend on the ids of the patients),
  and the one appointment it appends carries the name of that patient (of the first row with
  the id) and the status \<^verbatim>\<open>Scheduled\<close>.
\<close>

theorem schedule_appointment_independent_ids:
  assumes "read_csv (patients_file st) = Some patients_df"
    and "filter (\<lambda>p. patient_id p = 1001) patients_df = first # others"
    and "read_csv (appointments_file st) = Some []"
  shows "schedule_appointment st 1001 ''Dr. Wilson'' ''Cardiology'' ''2024-01-15'' ''10:00 AM'' [] =
           (Some 1001,
            st\<lparr>appointments_file :=
              Frame [\<lparr>appointment_id = 1001, appt_patient_id = 1001,
                      appt_patient_name = name first, doctor_name = Some ''Dr. Wilson'',
                      department = Some ''Cardiology'', appointment_date = Some ''2024-01-15'',
                      appointment_time = Some ''10:00 AM'', appt_status = Some ''Scheduled'',
                      appt_notes = None\<rparr>]\<rparr>)"
  using assms by (simp add: schedule_appointment_def generate_id_int_ids csv_text_def)

theorem schedule_appointment_independent_ids_witness:
  "schedule_appointment (empty_store\<lparr>patients_file := Frame [john_smith]\<rparr>) 1001 ''Dr. Wilson''
      ''Cardiology'' ''2024-01-15'' ''10:00 AM'' [] =
     (Some 1001,
      empty_store\<lparr>patients_file := Frame [john_smith],
        appointments_file :=
          Frame [\<lparr>appointment_id = 1001, appt_patient_id = 1001,
                  appt_patient_name = Some ''John Smith'', doctor_name = Some ''Dr. Wilson'',
                  department = Some ''Cardiology'', appointment_date = Some ''2024-01-15'',
                  appointment_time = Some ''10:00 AM'', appt_status = Some ''Scheduled'',
                  appt_notes = None\<rparr>]\<rparr>)"
  using schedule_appointment_independent_ids
    [of "empty_store\<lparr>patients_file := Frame [john_smith]\<rparr>" "[john_smith]" john_smith "[]"]
  by (simp add: empty_store_def john_smith_def read_csv_def)

subsection \<open>Looking a patient up\<close>

lemma filter_distinct_id:
  "distinct (map patient_id ps) \<Longrightarrow> p \<in> set ps \<Longrightarrow>
     filter (\<lambda>q. patient_id q = patient_id p) ps = [p]"
proof (induction ps)
  case Nil
  then show ?case by simp
next
  case (Cons q ps)
  show ?case
  proof (cases "q = p")
    case True
    with Cons.prems have "patient_id p \<notin> set (map patient_id ps)" by simp
    then have "filter (\<lambda>q. patient_id q = patient_id p) ps = []"
      by (rule filter_id_empty)
    with True show ?thesis by simp
  next
    case False
    with Cons.prems have in_ps: "p \<in> set ps" by simp
    with Cons.prems have "patient_id q \<noteq> patient_id p" by force
    with Cons in_ps show ?thesis by simp
  qed
qed

text \<open>
  C7. For an id that is not in the Patient collection \<^verbatim>\<open>get_patient_by_id\<close> returns the
  empty frame, not an error (it is a total function into frames, and a file that cannot be
  read also gives the empty frame); for an id that is present, in a collection whose ids are
  distinct, it returns the one matching record, blank cells filled with the empty string.
\<close>

theorem get_patient_by_id_result:
  "(\<not> patient_exists st pid \<longrightarrow> get_patient_by_id st pid = [])
   \<and> (read_csv (patients_file st) = Some patients_df \<and> distinct (map patient_id patients_df)
        \<and> p \<in> set patients_df \<and> patient_id p = pid
      \<longrightarrow> get_patient_by_id st pid = [fillna_patient p])"
proof (intro conjI impI)
  assume "\<not> patient_exists st pid"
  then show "get_patient_by_id st pid = []"
    by (auto simp: patient_exists_def get_patient_by_id_def filter_id_empty
        split: option.splits)
next
  assume a: "read_csv (patients_file st) = Some patients_df \<and> distinct (map patient_id patients_df)
        \<and> p \<in> set patients_df \<and> patient_id p = pid"
  then have "filter (\<lambda>q. patient_id q = pid) patients_df = [p]"
    using filter_distinct_id [of patients_df p] by auto
  with a show "get_patient_by_id st pid = [fillna_patient p]"
    by (simp add: get_patient_by_id_def)
qed

theorem get_patient_by_id_result_witness:
  "get_patient_by_id (empty_store\<lparr>patients_file := Frame [john_smith]\<rparr>) 1002 = []
   \<and> get_patient_by_id (empty_store\<lparr>patients_file := Malformed\<rparr>) 1001 = []
   \<and> get_patient_by_id (empty_store\<lparr>patients_file := Frame [john_smith]\<rparr>) 1001 =
       [\<lparr>patient_id = 1001, name = ''John Smith'', age = Val 35, gender = ''Male'',
         contact = ''123-456-7890'', address = ''123 Main St'', email = [],
         registration_date = ''2024-01-10'', blood_group = []\<rparr>]"
  using get_patient_by_id_result
      [of "empty_store\<lparr>patients_file := Frame [john_smith]\<rparr>" 1002 "[john_smith]" john_smith]
    get_patient_by_id_result
      [of "empty_store\<lparr>patients_file := Malformed\<rparr>" 1001 "[john_smith]" john_smith]
    get_patient_by_id_result
      [of "empty_store\<lparr>patients_file := Frame [john_smith]\<rparr>" 1001 "[john_smith]" john_smith]
  by (simp add: patient_exists_def empty_store_def john_smith_def read_csv_def
      fillna_patient_def fill_text_def fill_num_def)

subsection \<open>The age of a new patient\<close>

lemma add_patient_ages_nonneg:
  "ages_nonneg st \<Longrightarrow> 0 \<le> ag \<Longrightarrow>
     ages_nonneg (snd (add_patient st today nm ag gen con addr em bg))"
  by (simp add: ages_nonneg_def add_patient_def read_csv_def Let_def split: option.splits)

lemma add_patient_stores_age:
  "read_csv (patients_file st) = Some patients_df \<Longrightarrow>
     \<exists>p. read_csv (patients_file (snd (add_patient st today nm ag gen con addr em bg)))
            = Some (patients_df @ [p]) \<and> age p = Some ag"
  by (simp add: add_patient_def read_csv_def Let_def)

text \<open>
  C9, as the code has it. \<^verbatim>\<open>add_patient\<close> stores \<^verbatim>\<open>int(age)\<close> and checks no range:
  the record it appends carries the integer the caller supplied. So the age of every stored
  patient is present and not negative after any sequence of \<^verbatim>\<open>add_patient\<close> calls
  whose supplied ages are not negative, on a store where that held before.
\<close>

theorem add_patient_age_unchecked:
  "(read_csv (patients_file st) = Some patients_df \<longrightarrow>
      (\<exists>p. read_csv (patients_file (snd (add_patient st today nm ag gen con addr em bg)))
              = Some (patients_df @ [p]) \<and> age p = Some ag))
   \<and> (ages_nonneg st0 \<and> list_all (\<lambda>args. 0 \<le> supplied_age args) argss
        \<longrightarrow> ages_nonneg (add_patients st0 argss))"
proof (intro conjI impI)
  assume "read_csv (patients_file st) = Some patients_df"
  then show "\<exists>p. read_csv (patients_file (snd (add_patient st today nm ag gen con addr em bg)))
              = Some (patients_df @ [p]) \<and> age p = Some ag"
    by (rule add_patient_stores_age)
next
  assume "ages_nonneg st0 \<and> list_all (\<lambda>args. 0 \<le> supplied_age args) argss"
  then show "ages_nonneg (add_patients st0 argss)"
  proof (induction st0 argss rule: add_patients.induct)
    case (1 st)
    then show ?case by simp
  next
    case (2 st today nm ag gen con addr em bg rest)
    then have "ages_nonneg (snd (add_patient st today nm ag gen con addr em bg))"
      by (simp add: supplied_age_def add_patient_ages_nonneg)
    with 2 show ?case by simp
  qed
qed

theorem add_patient_age_unchecked_witness:
  "add_patients empty_store
      [(''2024-01-10'', ''John Smith'', 35, ''Male'', ''123-456-7890'', ''123 Main St'', [], []),
       (''2024-01-11'', ''Emma Jones'', 0, ''Female'', ''555-0100'', ''9 Oak Ave'', [], ''A+'')] =
     empty_store\<lparr>patients_file := Frame
       [john_smith,
        \<lparr>patient_id = 1002, name = Some ''Emma Jones'', age = Some 0, gender = Some ''Female'',
         contact = Some ''555-0100'', address = Some ''9 Oak Ave'', email = None,
         registration_date = Some ''2024-01-11'', blood_group = Some ''A+''\<rparr>]\<rparr>
   \<and> ages_nonneg (add_patients empty_store
      [(''2024-01-10'', ''John Smith'', 35, ''Male'', ''123-456-7890'', ''123 Main St'', [], []),
       (''2024-01-11'', ''Emma Jones'', 0, ''Female'', ''555-0100'', ''9 Oak Ave'', [], ''A+'')])"
  using add_patient_age_unchecked
    [of empty_store "[]" "''2024-01-10''" "''John Smith''" 35 "''Male''" "''123-456-7890''"
        "''123 Main St''" "[]" "[]" empty_store
        "[(''2024-01-10'', ''John Smith'', 35, ''Male'', ''123-456-7890'', ''123 Main St'', [], []),
          (''2024-01-11'', ''Emma Jones'', 0, ''Female'', ''555-0100'', ''9 Oak Ave'', [], ''A+'')]"]
  by (simp add: empty_store_def john_smith_def ages_nonneg_def supplied_age_def
      add_patient_def read_csv_def generate_id_int_ids csv_text_def)

text \<open>
  C9, as it is stated, fails: on the store of four empty files \<^verbatim>\<open>add_patient\<close> with the
  age \<open>-5\<close> succeeds and stores a patient of age \<open>-5\<close>.
\<close>

theorem add_patient_negative_age_counterexample:
  "add_patient empty_store ''2024-01-10'' ''John Smith'' (- 5) ''Male'' ''123-456-7890''
      ''123 Main St'' [] [] =
     (Some 1001, empty_store\<lparr>patients_file := Frame [john_smith\<lparr>age := Some (- 5)\<rparr>]\<rparr>)
   \<and> \<not> ages_nonneg (snd (add_patient empty_store ''2024-01-10'' ''John Smith'' (- 5) ''Male''
          ''123-456-7890'' ''123 Main St'' [] []))"
  by (simp add: empty_store_def john_smith_def ages_nonneg_def add_patient_def read_csv_def
      generate_id_int_ids csv_text_def)

section \<open>Properties of the patient search\<close>

text \<open>
  A term without metacharacters compiles to the sequence of its characters, and searching for
  such a sequence is the search for a substring.
\<close>

lemma dot_is_metachar: "CHR ''.'' \<in> set metachars"
  by (simp add: metachars_def)

lemma re_compile_literal:
  "list_all (\<lambda>c. c \<notin> set metachars) t \<Longrightarrow> re_compile t = Some (map Lit t)"
proof (induction t)
  case Nil
  show ?case by simp
next
  case (Cons c t)
  then have "c \<notin> set metachars" by simp
  with dot_is_metachar have "c \<noteq> CHR ''.''" by auto
  with \<open>c \<notin> set metachars\<close> have "compile_char c = Some (Lit c)"
    by (simp add: compile_char_def)
  with Cons show ?case by simp
qed

lemma match_here_literal:
  "match_here ic (map Lit t) s =
     prefix (map (if ic then lower_char else id) t) (map (if ic then lower_char else id) s)"
proof (induction t arbitrary: s)
  case Nil
  show ?case by simp
next
  case (Cons c t)
  show ?case
  proof (cases s)
    case Nil
    then show ?thesis by simp
  next
    case (Cons d s')
    with Cons.IH [of s'] show ?thesis by simp
  qed
qed

lemma re_search_literal:
  "re_search ic (map Lit t) s =
     sublist (map (if ic then lower_char else id) t) (map (if ic then lower_char else id) s)"
proof (induction s)
  case Nil
  show ?case by (cases t) (simp_all add: match_here_literal)
next
  case (Cons d s)
  then show ?case
    by (simp add: match_here_literal sublist_Cons_right del: map_eq_Cons_conv)
qed

text \<open>
  C2, as the code has it. Over a Patient collection in which every patient has a name, with
  names and term in ASCII: for the empty term \<^verbatim>\<open>search_patients\<close> returns every record
  of the collection (the empty pattern is found in every string), and for a term without
  regular-expression metacharacters it returns exactly the records whose name contains the
  term as a substring, letter case ignored, or whose patient id in decimal contains the term
  as a substring.
\<close>

theorem search_patients_literal_term:
  assumes "read_csv (patients_file st) = Some patients_df"
    and "list_all (\<lambda>p. name p \<noteq> None \<and> list_all is_ascii (fill_text (name p))) patients_df"
    and "list_all is_ascii search_term"
    and "list_all (\<lambda>c. c \<notin> set metachars) search_term"
  shows "search_patients st search_term =
           Found (map fillna_patient
             (filter (\<lambda>p. sublist (map lower_char search_term)
                              (map lower_char (fill_text (name p)))
                          \<or> sublist search_term (str_int (patient_id p)))
                patients_df))
         \<and> search_patients st [] = Found (map fillna_patient patients_df)"
proof
  have names: "astype_str (name p) = fill_text (name p)" if "p \<in> set patients_df" for p
    using that assms(2) by (auto simp: list_all_iff astype_str_def fill_text_def)
  have ascii: "list_all (\<lambda>p. list_all is_ascii (astype_str (name p))) patients_df"
    using assms(2) names by (simp add: list_all_iff)
  have compiled: "re_compile search_term = Some (map Lit search_term)"
    using assms(4) by (rule re_compile_literal)
  have "filter (\<lambda>p. re_search True (map Lit search_term) (astype_str (name p))
                   \<or> re_search False (map Lit search_term) (str_int (patient_id p)))
          patients_df =
        filter (\<lambda>p. sublist (map lower_char search_term) (map lower_char (fill_text (name p)))
                   \<or> sublist search_term (str_int (patient_id p)))
          patients_df"
    by (rule filter_cong) (simp_all add: re_search_literal names)
  with assms(1,3) ascii compiled
  show "search_patients st search_term =
           Found (map fillna_patient
             (filter (\<lambda>p. sublist (map lower_char search_term)
                              (map lower_char (fill_text (name p)))
                          \<or> sublist search_term (str_int (patient_id p)))
                patients_df))"
    by (simp add: search_patients_def)
  have "filter (\<lambda>p. re_search True [] (astype_str (name p))
                   \<or> re_search False [] (str_int (patient_id p))) patients_df = patients_df"
    using re_search_literal [of _ "[]"] by simp
  with assms(1) ascii show "search_patients st [] = Found (map fillna_patient patients_df)"
    by (simp add: search_patients_def)
qed

theorem search_patients_literal_term_witness:
  "search_patients (empty_store\<lparr>patients_file := Frame [john_smith, emma_jones]\<rparr>) ''SMI'' =
     Found [fillna_patient john_smith]
   \<and> search_patients (empty_store\<lparr>patients_file := Frame [john_smith, emma_jones]\<rparr>) ''02'' =
     Found [fillna_patient emma_jones]
   \<and> search_patients (empty_store\<lparr>patients_file := Frame [john_smith, emma_jones]\<rparr>) [] =
     Found [fillna_patient john_smith, fillna_patient emma_jones]"
proof -
  let ?st = "empty_store\<lparr>patients_file := Frame [john_smith, emma_jones]\<rparr>"
  have rd: "read_csv (patients_file ?st) = Some [john_smith, emma_jones]"
    by (simp add: read_csv_def)
  have nm: "list_all (\<lambda>p. name p \<noteq> None \<and> list_all is_ascii (fill_text (name p)))
      [john_smith, emma_jones]"
    by code_simp
  have a1: "list_all is_ascii ''SMI''"
    by code_simp
  have a2: "list_all is_ascii ''02''"
    by code_simp
  have l1: "list_all (\<lambda>c. c \<notin> set metachars) ''SMI''"
    by (simp add: metachars_def)
  have l2: "list_all (\<lambda>c. c \<notin> set metachars) ''02''"
    by (simp add: metachars_def)
  have e1: "sublist (map lower_char ''SMI'') (map lower_char (fill_text (name john_smith)))"
    by code_simp
  have e2: "\<not> sublist (map lower_char ''SMI'') (map lower_char (fill_text (name emma_jones)))"
    by code_simp
  have e3: "\<not> sublist ''SMI'' (str_int (patient_id emma_jones))"
    by code_simp
  have e4: "\<not> sublist (map lower_char ''02'') (map lower_char (fill_text (name john_smith)))"
    by code_simp
  have e5: "\<not> sublist ''02'' (str_int (patient_id john_smith))"
    by code_simp
  have e6: "sublist ''02'' (str_int (patient_id emma_jones))"
    by code_simp
  show ?thesis
    using search_patients_literal_term [OF rd nm a1 l1]
      search_patients_literal_term [OF rd nm a2 l2] e1 e2 e3 e4 e5 e6
    by simp
qed

text \<open>
  C2, as it is stated, fails. With the empty term the search over a collection of one patient
  does not return the empty frame; and with the term \<^verbatim>\<open>J.hn\<close>, which is not empty,
  it returns John Smith, whose name and id do not contain that term.
\<close>

theorem search_patients_empty_term_counterexample:
  "search_patients (empty_store\<lparr>patients_file := Frame [john_smith]\<rparr>) [] \<noteq> Found []
   \<and> search_patients (empty_store\<lparr>patients_file := Frame [john_smith]\<rparr>) ''J.hn'' =
       Found [fillna_patient john_smith]
   \<and> \<not> sublist (map lower_char ''J.hn'') (map lower_char (astype_str (name john_smith)))
   \<and> \<not> sublist ''J.hn'' (str_int (patient_id john_smith))"
  by code_simp

text \<open>
  C10. The term is read as a regular expression, not as a literal string: for the term
  \<^verbatim>\<open>.\<close> the search returns John Smith, although neither his name nor his id in
  decimal contains a dot.
\<close>

theorem search_patients_dot_matches_any:
  "search_patients (empty_store\<lparr>patients_file := Frame [john_smith]\<rparr>) ''.'' =
     Found [fillna_patient john_smith]
   \<and> \<not> sublist ''.'' (astype_str (name john_smith))
   \<and> \<not> sublist ''.'' (str_int (patient_id john_smith))"
  by code_simp

section \<open>Properties of the reports\<close>

subsection \<open>Columns and blank cells\<close>

lemma values_of_None: "values_of col = None \<longleftrightarrow> Blank \<in> set col"
proof (induction col rule: values_of.induct)
  case 1
  show ?case by simp
next
  case (2 cs)
  show ?case by simp
next
  case (3 v cs)
  then show ?case by (cases "values_of cs") simp_all
qed

lemma values_of_fill:
  "list_all (\<lambda>c. c \<noteq> None) col \<Longrightarrow> values_of (map fill_num col) = Some (dropna col)"
  by (induction col) (auto simp: fill_num_def dropna_def)

lemma values_of_map_filled:
  "values_of col = Some vs \<Longrightarrow> values_of (map (map_filled f) col) = Some (map f vs)"
proof (induction col arbitrary: vs rule: values_of.induct)
  case 1
  then show ?case by simp
next
  case (2 cs)
  then show ?case by simp
next
  case (3 v cs)
  then show ?case by (cases "values_of cs") auto
qed

lemma length_dropna: "list_all (\<lambda>c. c \<noteq> None) col \<Longrightarrow> length (dropna col) = length col"
  by (induction col) (auto simp: dropna_def)

lemma isna_all_iff: "isna_all col \<longleftrightarrow> col = []"
  by (cases col) (simp_all add: isna_all_def isna_filled_def)


lemma fill_num_Blank: "fill_num c = Blank \<longleftrightarrow> c = None"
  by (cases c) (simp_all add: fill_num_def)

lemma amount_fillna: "map amount (map fillna_bill bs) = map fill_num (map amount bs)"
  by (simp add: fillna_bill_def)


lemma map_of_convert_stats:
  "map_of (convert_stats stats) k = map_option convert_numpy_types (map_of stats k)"
  by (induction stats) (auto simp: convert_stats_def)

subsection \<open>Sums without rounding\<close>

lemma fin_values_Fin: "fin_values (map Fin xs) = xs"
  by (induction xs) (simp_all add: fin_values_def)

lemma float_sum_finite: "exact_grid xs \<Longrightarrow> float_sum (map Fin xs) = Number (Fin (sum_list xs))"
  by (auto simp: float_sum_def fin_values_Fin)





subsection \<open>Bills with finite amounts\<close>




subsection \<open>The entries of the financial report\<close>









subsection \<open>The financial report\<close>




subsection \<open>The patient statistics\<close>

lemma age_fillna: "map age (map fillna_patient ps) = map fill_num (map age ps)"
  by (simp add: fillna_patient_def)

lemma blank_age:
  assumes "p \<in> set ps" and "age p = None"
  shows "Blank \<in> set (map age (map fillna_patient ps))"
proof -
  from assms(1) have "age (fillna_patient p) \<in> set (map age (map fillna_patient ps))"
    by force
  moreover from assms(2) have "age (fillna_patient p) = Blank"
    by (simp add: fillna_patient_def fill_num_def)
  ultimately show ?thesis by (simp only:)
qed

lemma patient_stats_blank:
  assumes "Blank \<in> set (map age patients_df)"
  shows "patient_stats patients_df = None"
proof -
  let ?f = "map_filled (\<lambda>a. Fin (rat_of_int a))"
  from assms have ne: "map age patients_df \<noteq> []" by auto
  from assms have "?f Blank \<in> ?f ` set (map age patients_df)"
    by (rule imageI)
  then have "Blank \<in> set (map ?f (map age patients_df))"
    by (simp only: filled.map set_map)
  then have "values_of (map ?f (map age patients_df)) = None"
    by (simp add: values_of_None del: map_map)
  then have "float_val (series_mean (map ?f (map age patients_df))) = None"
    by (simp add: series_mean_def float_val_def del: map_map)
  with ne show ?thesis
    by (simp add: patient_stats_def isna_all_iff Let_def del: map_map)
qed

lemma generate_patient_statistics_blank_age:
  assumes "read_csv (patients_file st) = Some patients_df"
    and "p \<in> set patients_df" and "age p = None"
  shows "generate_patient_statistics st = error_payload"
proof -
  have "patient_stats (map fillna_patient patients_df) = None"
    using blank_age [OF assms(2,3)] by (rule patient_stats_blank)
  moreover from assms(2) have "patients_df \<noteq> []" by auto
  ultimately show ?thesis
    using assms(1) by (simp add: generate_patient_statistics_def get_all_patients_def)
qed

text \<open>
  When every age is present the report succeeds, and its average age is the mean of the
  ages, provided that the sum and the division do not round.
\<close>

lemma values_of_ages:
  assumes "list_all (\<lambda>p. age p \<noteq> None) ps"
  shows "values_of (map age (map fillna_patient ps)) = Some (dropna (map age ps))"
proof -
  from assms have "list_all (\<lambda>c. c \<noteq> None) (map age ps)"
    by (simp add: list_all_iff)
  then have "values_of (map fill_num (map age ps)) = Some (dropna (map age ps))"
    by (rule values_of_fill)
  then show ?thesis by (simp only: age_fillna)
qed

lemma generate_patient_statistics_average_age:
  assumes rd: "read_csv (patients_file st) = Some patients_df"
    and ne: "patients_df \<noteq> []"
    and pres: "list_all (\<lambda>p. age p \<noteq> None) patients_df"
    and grid: "exact_grid (map rat_of_int (dropna (map age patients_df)))"
    and dbl: "is_double (rat_of_int (sum_list (dropna (map age patients_df)))
                / of_nat (length patients_df))"
  shows "map_of (generate_patient_statistics st) ''average_age'' =
           Some (VNum (Fin (rat_of_int (sum_list (dropna (map age patients_df)))
                         / of_nat (length patients_df))))"
proof -
  let ?df = "map fillna_patient patients_df"
  let ?ages = "dropna (map age patients_df)"
  have v: "values_of (map age ?df) = Some ?ages"
    using pres by (rule values_of_ages)
  from pres have "list_all (\<lambda>c. c \<noteq> None) (map age patients_df)"
    by (simp add: list_all_iff)
  then have len: "length ?ages = length patients_df"
    using length_dropna [of "map age patients_df"] by simp
  with ne obtain x xs where d: "?ages = x # xs"
    by (cases ?ages) auto
  have "values_of (map (map_filled (\<lambda>a. Fin (rat_of_int a))) (map age ?df)) =
      Some (map (\<lambda>a. Fin (rat_of_int a)) ?ages)"
    using v by (rule values_of_map_filled)
  then have vr: "values_of (map (map_filled (\<lambda>a. Fin (rat_of_int a))) (map age ?df)) =
      Some (Fin (rat_of_int x) # map Fin (map rat_of_int xs))"
    by (simp add: d comp_def)
  have sum: "sum_list (map rat_of_int ys) = rat_of_int (sum_list ys)" for ys
    by (induction ys) simp_all
  have fs: "float_sum (Fin (rat_of_int x) # map Fin (map rat_of_int xs)) =
      Number (Fin (rat_of_int (sum_list ?ages)))"
    using float_sum_finite [OF grid] sum [of ?ages] by (simp add: d)
  have l: "length (Fin (rat_of_int x) # map Fin (map rat_of_int xs)) = length patients_df"
    using len by (simp add: d)
  have mean: "float_val (series_mean (map (map_filled (\<lambda>a. Fin (rat_of_int a))) (map age ?df))) =
      Some (VNum (Fin (rat_of_int (sum_list ?ages) / of_nat (length patients_df))))"
    unfolding series_mean_def vr option.case list.case fs reduced.case number.case l
    using dbl by (simp add: float_val_def)
  have mn: "int_val (series_min (map age ?df)) = Some (VInt (fold min xs x))"
    unfolding series_min_def v by (simp add: d int_val_def)
  have mx: "int_val (series_max (map age ?df)) = Some (VInt (fold max xs x))"
    unfolding series_max_def v by (simp add: d int_val_def)
  have na: "\<not> isna_all (map age ?df)"
    using ne by (simp add: isna_all_iff)
  have "\<exists>rest. patient_stats ?df =
      Some ((''total_patients'', VInt (int (length ?df)))
            # (''average_age'',
                 VNum (Fin (rat_of_int (sum_list ?ages) / of_nat (length patients_df))))
            # rest)"
    unfolding patient_stats_def Let_def if_P [OF na] mean option.case mn mx
    by simp
  then show ?thesis
    using rd ne
    by (auto simp: generate_patient_statistics_def get_all_patients_def map_of_convert_stats)
qed

text \<open>
  C6. The average age should be the mean of the ages that are present, and 0 when every age
  is blank, without failure. \<^verbatim>\<open>get_all_patients\<close> has replaced a blank age by the
  string \<^verbatim>\<open>''\<close> before the statistics are taken, so the test
  \<^verbatim>\<open>isna().all()\<close> never holds and \<^verbatim>\<open>mean()\<close> raises: with one patient whose
  age is blank, and with two patients of whom one has a blank age, the report is the error
  payload and has no \<^verbatim>\<open>average_age\<close>.
\<close>

theorem patient_statistics_blank_age_fails:
  "generate_patient_statistics (empty_store\<lparr>patients_file := Frame [john_smith\<lparr>age := None\<rparr>]\<rparr>) =
     [(''error'', VExcText)]
   \<and> generate_patient_statistics
       (empty_store\<lparr>patients_file := Frame [john_smith, unnamed_patient\<lparr>age := None\<rparr>]\<rparr>) =
     [(''error'', VExcText)]"
  by (simp add: generate_patient_statistics_def get_all_patients_def patient_stats_def
      empty_store_def john_smith_def unnamed_patient_def read_csv_def fillna_patient_def
      fill_num_def fill_text_def isna_all_def isna_filled_def series_mean_def float_val_def
      error_payload_def)

subsection \<open>The dashboard\<close>

lemma blank_amount:
  assumes "b \<in> set bs" and "amount b = None"
  shows "Blank \<in> set (map amount (map fillna_bill bs))"
proof -
  from assms(1) have "amount (fillna_bill b) \<in> set (map amount (map fillna_bill bs))"
    by force
  moreover from assms(2) have "amount (fillna_bill b) = Blank"
    by (simp add: fillna_bill_def fill_num_def)
  ultimately show ?thesis by (simp only:)
qed

lemma generate_financial_reports_blank_amount:
  assumes "read_csv (billing_file st) = Some billing_df"
    and "b \<in> set billing_df" and "amount b = None"
  shows "generate_financial_reports st = error_payload"
proof -
  have "values_of (map amount (map fillna_bill billing_df)) = None"
    using blank_amount [OF assms(2,3)] by (simp only: values_of_None)
  then have "financial_stats (map fillna_bill billing_df) = None"
    by (simp add: financial_stats_def del: map_map)
  moreover from assms(2) have "billing_df \<noteq> []" by auto
  ultimately show ?thesis
    using assms(1) by (simp add: generate_financial_reports_def get_all_bills_def)
qed

lemma generate_medical_analytics_malformed:
  "medical_file st = Malformed \<Longrightarrow> generate_medical_analytics st = error_payload"
  by (simp add: generate_medical_analytics_def path_exists_def read_csv_def)

text \<open>
  When the four totals that the dashboard looks up compare with 0 without an exception, and
  the JSON file can be written, the dashboard has the four keys and the timestamp, each key
  with the payload of its report, whether that report failed or not.
\<close>

lemma dashboard_summary_composes:
  assumes "py_any
      [py_gt_zero (dict_get (generate_patient_statistics st) ''total_patients'' (VInt 0)),
       py_gt_zero (dict_get (generate_appointment_analytics st) ''total_appointments'' (VInt 0)),
       py_gt_zero (dict_get (generate_financial_reports st) ''total_revenue'' (VInt 0)),
       py_gt_zero (dict_get (generate_financial_reports st) ''pending_amount'' (VInt 0))]
     \<in> {Cmp_true, Cmp_false}"
  shows "generate_dashboard_summary st now True =
     Returns [(''patient_stats'', VDict (generate_patient_statistics st)),
              (''appointment_stats'', VDict (generate_appointment_analytics st)),
              (''financial_stats'', VDict (generate_financial_reports st)),
              (''medical_stats'', VDict (generate_medical_analytics st)),
              (''timestamp'', VStr now)]"
  using assms by (auto simp: generate_dashboard_summary_def Let_def)

text \<open>
  C8. The dashboard should keep its four keys and the timestamp when a report fails. On the
  store where the only patient has a blank age and the two bills have the amounts
  \<^verbatim>\<open>inf\<close> and \<^verbatim>\<open>-inf\<close>, the patient report fails and contributes its error payload,
  so the total of patients that the dashboard looks up is the default 0; the financial report
  succeeds with \<^verbatim>\<open>total_revenue\<close> \<^verbatim>\<open>None\<close>, the NaN sum after
  \<^verbatim>\<open>_convert_numpy_types\<close>; \<^verbatim>\<open>None > 0\<close> raises, and the dashboard as a whole is the
  dict \<^verbatim>\<open>{error: message}\<close>, without any of the four keys.
\<close>

theorem dashboard_summary_fails_as_a_whole:
  "generate_patient_statistics troubled_store = [(''error'', VExcText)]
   \<and> map_of (generate_financial_reports troubled_store) ''total_revenue'' = Some VNone
   \<and> generate_dashboard_summary troubled_store ''2024-01-15 10:00:00'' True =
       Returns [(''error'', VExcText)]"
  by code_simp

end
